theory Spec2Isabelle
  imports Complex_Main "HOL-Library.Word"
begin

section \<open>Configuration loading (package config)\<close>

text \<open>
  \<^verbatim>\<open>R2Config\<close> is the struct of the four credential fields. The TOML file and the
  process environment are inputs of \<^verbatim>\<open>LoadConfig\<close>: the file is given by what
  \<^verbatim>\<open>os.Stat\<close>, \<^verbatim>\<open>os.ReadFile\<close> and \<^verbatim>\<open>toml.Unmarshal\<close> make of it, the
  environment by a map from variable names to values.
\<close>

record R2Config =
  AccountID :: string
  AccessKeyID :: string
  SecretAccessKey :: string
  DefaultBucket :: string

text \<open>The zero value \<^verbatim>\<open>&R2Config{}\<close>: every field is the empty string.\<close>

definition zero_config :: R2Config where
  "zero_config = \<lparr>AccountID = [], AccessKeyID = [], SecretAccessKey = [], DefaultBucket = []\<rparr>"

text \<open>
  The state of the file at the fixed path. \<open>Absent\<close>: \<^verbatim>\<open>os.Stat\<close> returns an error,
  whatever the error (the file is missing, or it is there and cannot be stat'ed), and the
  file is skipped. \<open>Unreadable\<close>: \<^verbatim>\<open>os.Stat\<close> succeeds and \<^verbatim>\<open>os.ReadFile\<close> fails.
  \<open>Malformed\<close>: the file is read and \<^verbatim>\<open>toml.Unmarshal\<close> fails. \<open>Parsed\<close>: the file is
  unmarshalled into the zero configuration, giving the record carried (a field the file does
  not mention stays empty).
\<close>

datatype config_file =
    Absent
  | Unreadable string
  | Malformed string
  | Parsed R2Config

datatype field_name = FAccountID | FAccessKeyID | FSecretAccessKey | FDefaultBucket

datatype config_error =
    ReadFailed string
  | UnmarshalFailed string
  | NotSet field_name

type_synonym environ = "string \<Rightarrow> string option"

text \<open>\<^verbatim>\<open>os.Getenv\<close>: the value of the variable, the empty string when it is unset.\<close>

definition Getenv :: "environ \<Rightarrow> string \<Rightarrow> string" where
  "Getenv env k = (case env k of None \<Rightarrow> [] | Some v \<Rightarrow> v)"

text \<open>Step 1 of \<^verbatim>\<open>LoadConfig\<close>: the configuration after the file has been looked at.\<close>

fun load_file :: "config_file \<Rightarrow> config_error + R2Config" where
  "load_file Absent = Inr zero_config"
| "load_file (Unreadable e) = Inl (ReadFailed e)"
| "load_file (Malformed e) = Inl (UnmarshalFailed e)"
| "load_file (Parsed c) = Inr c"

text \<open>Step 2: the four \<^verbatim>\<open>if os.Getenv(...) != ""\<close> assignments, in the source's order.\<close>

definition override_env :: "environ \<Rightarrow> R2Config \<Rightarrow> R2Config" where
  "override_env env cfg =
     (let c1 = (if Getenv env ''CFR2_ACCOUNT_ID'' \<noteq> []
                then cfg\<lparr>AccountID := Getenv env ''CFR2_ACCOUNT_ID''\<rparr> else cfg);
          c2 = (if Getenv env ''CFR2_ACCESS_KEY_ID'' \<noteq> []
                then c1\<lparr>AccessKeyID := Getenv env ''CFR2_ACCESS_KEY_ID''\<rparr> else c1);
          c3 = (if Getenv env ''CFR2_SECRET_ACCESS_KEY'' \<noteq> []
                then c2\<lparr>SecretAccessKey := Getenv env ''CFR2_SECRET_ACCESS_KEY''\<rparr> else c2);
          c4 = (if Getenv env ''CFR2_DEFAULT_BUCKET'' \<noteq> []
                then c3\<lparr>DefaultBucket := Getenv env ''CFR2_DEFAULT_BUCKET''\<rparr> else c3)
      in c4)"

text \<open>Step 3: the four checks, the first empty field decides the error.\<close>

definition validate :: "R2Config \<Rightarrow> config_error + R2Config" where
  "validate cfg =
     (if AccountID cfg = [] then Inl (NotSet FAccountID)
      else if AccessKeyID cfg = [] then Inl (NotSet FAccessKeyID)
      else if SecretAccessKey cfg = [] then Inl (NotSet FSecretAccessKey)
      else if DefaultBucket cfg = [] then Inl (NotSet FDefaultBucket)
      else Inr cfg)"

definition LoadConfig :: "config_file \<Rightarrow> environ \<Rightarrow> config_error + R2Config" where
  "LoadConfig file env =
     (case load_file file of
        Inl e \<Rightarrow> Inl e
      | Inr cfg \<Rightarrow> validate (override_env env cfg))"

text \<open>The value of a field, and the environment variable that overrides it.\<close>

fun field_value :: "field_name \<Rightarrow> R2Config \<Rightarrow> string" where
  "field_value FAccountID c = AccountID c"
| "field_value FAccessKeyID c = AccessKeyID c"
| "field_value FSecretAccessKey c = SecretAccessKey c"
| "field_value FDefaultBucket c = DefaultBucket c"

fun env_var :: "field_name \<Rightarrow> string" where
  "env_var FAccountID = ''CFR2_ACCOUNT_ID''"
| "env_var FAccessKeyID = ''CFR2_ACCESS_KEY_ID''"
| "env_var FSecretAccessKey = ''CFR2_SECRET_ACCESS_KEY''"
| "env_var FDefaultBucket = ''CFR2_DEFAULT_BUCKET''"

definition all_set :: "R2Config \<Rightarrow> bool" where
  "all_set c \<longleftrightarrow>
     AccountID c \<noteq> [] \<and> AccessKeyID c \<noteq> [] \<and> SecretAccessKey c \<noteq> [] \<and> DefaultBucket c \<noteq> []"

text \<open>The first empty field in the order of the checks, if any.\<close>

definition first_empty :: "R2Config \<Rightarrow> field_name option" where
  "first_empty c =
     (if AccountID c = [] then Some FAccountID
      else if AccessKeyID c = [] then Some FAccessKeyID
      else if SecretAccessKey c = [] then Some FSecretAccessKey
      else if DefaultBucket c = [] then Some FDefaultBucket
      else None)"

text \<open>Two environments used as concrete inputs.\<close>

definition full_env :: environ where
  "full_env = [''CFR2_ACCOUNT_ID'' \<mapsto> ''acct'', ''CFR2_ACCESS_KEY_ID'' \<mapsto> ''key'',
               ''CFR2_SECRET_ACCESS_KEY'' \<mapsto> ''secret'', ''CFR2_DEFAULT_BUCKET'' \<mapsto> ''bkt'']"

definition file_config :: R2Config where
  "file_config = \<lparr>AccountID = ''facct'', AccessKeyID = ''fkey'',
                   SecretAccessKey = ''fsecret'', DefaultBucket = ''fbkt''\<rparr>"

section \<open>Object operations (package r2)\<close>

text \<open>
  The S3 client of the SDK is an input of every operation. A request acts on the remote
  store, of any type \<open>'s\<close>, and returns \<^verbatim>\<open>nil\<close> or an error, given here by its message.
  The world an operation runs in is the remote store together with the requests handed to the
  client so far, in order.
\<close>

datatype s3_request =
    CopyObjectInput string string string
  | DeleteObjectInput string string

record 's s3_client =
  client_CopyObject :: "string \<Rightarrow> string \<Rightarrow> string \<Rightarrow> 's \<Rightarrow> string option \<times> 's"
  client_DeleteObject :: "string \<Rightarrow> string \<Rightarrow> 's \<Rightarrow> string option \<times> 's"

record 's world =
  remote :: 's
  requests :: "s3_request list"

text \<open>\<^verbatim>\<open>client.CopyObject(ctx, &s3.CopyObjectInput{Bucket, CopySource, Key})\<close>.\<close>

definition call_CopyObject ::
  "'s s3_client \<Rightarrow> string \<Rightarrow> string \<Rightarrow> string \<Rightarrow> 's world \<Rightarrow> string option \<times> 's world" where
  "call_CopyObject c bucket source key w =
     (case client_CopyObject c bucket source key (remote w) of
        (err, s') \<Rightarrow>
          (err, \<lparr>remote = s', requests = requests w @ [CopyObjectInput bucket source key]\<rparr>))"

text \<open>\<^verbatim>\<open>client.DeleteObject(ctx, &s3.DeleteObjectInput{Bucket, Key})\<close>.\<close>

definition call_DeleteObject ::
  "'s s3_client \<Rightarrow> string \<Rightarrow> string \<Rightarrow> 's world \<Rightarrow> string option \<times> 's world" where
  "call_DeleteObject c bucket key w =
     (case client_DeleteObject c bucket key (remote w) of
        (err, s') \<Rightarrow>
          (err, \<lparr>remote = s', requests = requests w @ [DeleteObjectInput bucket key]\<rparr>))"

text \<open>The format verb \<^verbatim>\<open>'%s'\<close>: the string between two apostrophes.\<close>

definition quoted :: "string \<Rightarrow> string" where
  "quoted s = CHR 0x27 # s @ [CHR 0x27]"

text \<open>
  \<^verbatim>\<open>DeleteObject\<close>: one request; its error is wrapped (\<^verbatim>\<open>%w\<close> appends the message
  of the wrapped error).
\<close>

definition DeleteObject ::
  "'s s3_client \<Rightarrow> string \<Rightarrow> string \<Rightarrow> 's world \<Rightarrow> string option \<times> 's world" where
  "DeleteObject c bucketName objectKey w =
     (case call_DeleteObject c bucketName objectKey w of
        (Some err, w') \<Rightarrow>
          (Some (''failed to delete object '' @ quoted objectKey @ '' from bucket ''
                 @ quoted bucketName @ '': '' @ err), w')
      | (None, w') \<Rightarrow> (None, w'))"

text \<open>\<^verbatim>\<open>RenameObject\<close>: copy to the new key, then delete the original.\<close>

definition RenameObject ::
  "'s s3_client \<Rightarrow> string \<Rightarrow> string \<Rightarrow> string \<Rightarrow> 's world \<Rightarrow> string option \<times> 's world" where
  "RenameObject c bucketName oldObjectKey newObjectKey w =
     (case call_CopyObject c bucketName (bucketName @ ''/'' @ oldObjectKey) newObjectKey w of
        (Some err, w1) \<Rightarrow>
          (Some (''failed to copy object from '' @ quoted oldObjectKey @ '' to ''
                 @ quoted newObjectKey @ '' in bucket '' @ quoted bucketName @ '': '' @ err), w1)
      | (None, w1) \<Rightarrow>
          (case DeleteObject c bucketName oldObjectKey w1 of
             (Some err, w2) \<Rightarrow>
               (Some (''copy successful but failed to delete original object ''
                      @ quoted oldObjectKey @ '' from bucket '' @ quoted bucketName
                      @ '': '' @ err), w2)
           | (None, w2) \<Rightarrow> (None, w2)))"

subsection \<open>A reference store\<close>

text \<open>
  An in-memory object store with the behaviour the operations expect of the remote one,
  used to run them on concrete inputs: objects live under \<^verbatim>\<open>bucket/key\<close>; a copy needs
  its source and writes the destination; deleting a key that is not there is not an error;
  a request can be made to fail (\<open>faults\<close> gives the error of a failing request), and a
  failed request leaves the store as it was.
\<close>

type_synonym mem_store = "string \<Rightarrow> string option"

definition mem_client :: "(s3_request \<Rightarrow> string option) \<Rightarrow> mem_store s3_client" where
  "mem_client faults =
     \<lparr>client_CopyObject = (\<lambda>bucket source key s.
        case faults (CopyObjectInput bucket source key) of
          Some e \<Rightarrow> (Some e, s)
        | None \<Rightarrow>
            (case s source of
               None \<Rightarrow> (Some ''NoSuchKey'', s)
             | Some v \<Rightarrow> (None, s(bucket @ ''/'' @ key \<mapsto> v)))),
      client_DeleteObject = (\<lambda>bucket key s.
        case faults (DeleteObjectInput bucket key) of
          Some e \<Rightarrow> (Some e, s)
        | None \<Rightarrow> (None, s(bucket @ ''/'' @ key := None)))\<rparr>"

definition no_faults :: "s3_request \<Rightarrow> string option" where
  "no_faults r = None"

text \<open>A fault schedule in which every delete request fails.\<close>

fun delete_fails :: "s3_request \<Rightarrow> string option" where
  "delete_fails (DeleteObjectInput b k) = Some ''AccessDenied''"
| "delete_fails (CopyObjectInput b s k) = None"

text \<open>A fault schedule in which every copy request fails.\<close>

fun copy_fails :: "s3_request \<Rightarrow> string option" where
  "copy_fails (CopyObjectInput b s k) = Some ''InternalError''"
| "copy_fails (DeleteObjectInput b k) = None"

definition one_object :: mem_store where
  "one_object = [''bkt/a.txt'' \<mapsto> ''hello'']"

definition start :: "'s \<Rightarrow> 's world" where
  "start s = \<lparr>remote = s, requests = []\<rparr>"

section \<open>Listing\<close>

text \<open>
  \<^verbatim>\<open>types.Object\<close> with the two fields the program reads. The paginator of the SDK is an input
  of \<^verbatim>\<open>ListObjects\<close>: its constructor, \<^verbatim>\<open>HasMorePages\<close> and \<^verbatim>\<open>NextPage\<close>, which
  returns the contents of a page or an error and moves the paginator on.
\<close>

record obj =
  Key :: string
  Size :: "64 word option"

record 'p paginator =
  NewListObjectsV2Paginator :: "string \<Rightarrow> 'p"
  HasMorePages :: "'p \<Rightarrow> bool"
  NextPage :: "'p \<Rightarrow> (string + obj list) \<times> 'p"

text \<open>
  The loop \<^verbatim>\<open>for paginator.HasMorePages() { ... }\<close> of \<^verbatim>\<open>ListObjects\<close>. It runs for as long as
  the paginator has pages, so it is a partial function: \<open>None\<close> is the loop that never ends.
\<close>

partial_function (option) list_loop ::
  "'p paginator \<Rightarrow> 'p \<Rightarrow> obj list \<Rightarrow> (string + obj list) option" where
  "list_loop P p allObjects =
     (if HasMorePages P p then
        (case NextPage P p of
           (Inl err, p') \<Rightarrow> Some (Inl (''failed to list objects: '' @ err))
         | (Inr contents, p') \<Rightarrow> list_loop P p' (allObjects @ contents))
      else Some (Inr allObjects))"

definition ListObjects :: "'p paginator \<Rightarrow> string \<Rightarrow> (string + obj list) option" where
  "ListObjects P bucketName = list_loop P (NewListObjectsV2Paginator P bucketName) []"

text \<open>
  \<open>pages P p css r\<close>: from state \<open>p\<close> the paginator serves the pages with contents
  \<open>css\<close>, in this order, and then either has no more pages (\<open>r = None\<close>) or fails to
  fetch the next one with error \<open>e\<close> (\<open>r = Some e\<close>).
\<close>

inductive pages :: "'p paginator \<Rightarrow> 'p \<Rightarrow> obj list list \<Rightarrow> string option \<Rightarrow> bool" where
  exhausted: "\<not> HasMorePages P p \<Longrightarrow> pages P p [] None"
| failed: "HasMorePages P p \<Longrightarrow> NextPage P p = (Inl e, p') \<Longrightarrow> pages P p [] (Some e)"
| fetched: "HasMorePages P p \<Longrightarrow> NextPage P p = (Inr cs, p') \<Longrightarrow> pages P p' css r
     \<Longrightarrow> pages P p (cs # css) r"

code_pred pages .

subsection \<open>A reference paginator\<close>

text \<open>
  A paginator that behaves as the one of the SDK does, over a server given as a function from
  the bucket and the continuation token to a response: the first page is always fetched, a
  later one only when the previous response was truncated and carried a non-empty token.
\<close>

record list_output =
  Contents :: "obj list"
  IsTruncated :: "bool option"
  NextContinuationToken :: "string option"

record sdk_paginator_state =
  params_Bucket :: string
  firstPage :: bool
  nextToken :: "string option"

definition sdk_paginator ::
  "(string \<Rightarrow> string option \<Rightarrow> string + list_output) \<Rightarrow> sdk_paginator_state paginator" where
  "sdk_paginator server =
     \<lparr>NewListObjectsV2Paginator = (\<lambda>bucket. \<lparr>params_Bucket = bucket, firstPage = True, nextToken = None\<rparr>),
      HasMorePages = (\<lambda>p. firstPage p \<or> (nextToken p \<noteq> None \<and> nextToken p \<noteq> Some [])),
      NextPage = (\<lambda>p.
        if \<not> (firstPage p \<or> (nextToken p \<noteq> None \<and> nextToken p \<noteq> Some []))
        then (Inl ''no more pages available'', p)
        else (case server (params_Bucket p) (nextToken p) of
                Inl e \<Rightarrow> (Inl e, p)
              | Inr out \<Rightarrow>
                  (Inr (Contents out),
                   \<lparr>params_Bucket = params_Bucket p, firstPage = False,
                    nextToken = (if IsTruncated out = Some True then NextContinuationToken out
                                 else None)\<rparr>)))\<rparr>"

definition obj_a :: obj where "obj_a = \<lparr>Key = ''a.txt'', Size = Some 5\<rparr>"
definition obj_b :: obj where "obj_b = \<lparr>Key = ''docs/b.txt'', Size = None\<rparr>"

fun two_pages :: "string \<Rightarrow> string option \<Rightarrow> string + list_output" where
  "two_pages b None = Inr \<lparr>Contents = [obj_a], IsTruncated = Some True, NextContinuationToken = Some ''t1''\<rparr>"
| "two_pages b (Some t) = Inr \<lparr>Contents = [obj_b], IsTruncated = Some False, NextContinuationToken = None\<rparr>"

fun second_fails :: "string \<Rightarrow> string option \<Rightarrow> string + list_output" where
  "second_fails b None = Inr \<lparr>Contents = [obj_a], IsTruncated = Some True, NextContinuationToken = Some ''t1''\<rparr>"
| "second_fails b (Some t) = Inl ''timeout''"

definition empty_bucket :: "string \<Rightarrow> string option \<Rightarrow> string + list_output" where
  "empty_bucket b t = Inr \<lparr>Contents = [], IsTruncated = Some False, NextContinuationToken = None\<rparr>"

section \<open>Presigned URLs\<close>

text \<open>
  \<^verbatim>\<open>time.Duration\<close> is an \<^verbatim>\<open>int64\<close> count of nanoseconds; the constants are those of
  package \<^verbatim>\<open>time\<close>.
\<close>

type_synonym Duration = "64 word"

definition Nanosecond :: Duration where "Nanosecond = 1"
definition Microsecond :: Duration where "Microsecond = 1000 * Nanosecond"
definition Millisecond :: Duration where "Millisecond = 1000 * Microsecond"
definition Second :: Duration where "Second = 1000 * Millisecond"
definition Minute :: Duration where "Minute = 60 * Second"
definition Hour :: Duration where "Hour = 60 * Minute"

text \<open>
  \<^verbatim>\<open>presignClient.PresignGetObject\<close> with \<^verbatim>\<open>opts.Expires\<close> set: from the bucket, the key
  and the expiry to an error or the URL. The presign client of the SDK is an input.
\<close>

type_synonym presigner = "string \<Rightarrow> string \<Rightarrow> Duration \<Rightarrow> string + string"

definition GeneratePresignedURLWithExpiry ::
  "presigner \<Rightarrow> string \<Rightarrow> string \<Rightarrow> Duration \<Rightarrow> string + string" where
  "GeneratePresignedURLWithExpiry presign bucketName objectKey expiry =
     (case presign bucketName objectKey expiry of
        Inl err \<Rightarrow>
          Inl (''failed to generate presigned URL for object '' @ quoted objectKey
               @ '' in bucket '' @ quoted bucketName @ '': '' @ err)
      | Inr url \<Rightarrow> Inr url)"

definition GeneratePresignedURL :: "presigner \<Rightarrow> string \<Rightarrow> string \<Rightarrow> string + string" where
  "GeneratePresignedURL presign bucketName objectKey =
     GeneratePresignedURLWithExpiry presign bucketName objectKey (24 * Hour)"

text \<open>
  The flags of \<^verbatim>\<open>presign\<close> after \<^verbatim>\<open>presignFlags.Parse\<close>: for each of \<^verbatim>\<open>-b/--bucket\<close>,
  \<^verbatim>\<open>-k/--key\<close> and \<^verbatim>\<open>-e/--expiry\<close> the last value given on the command line, if any
  (the short and the long name share one variable).
\<close>

record presign_args =
  arg_bucket :: "string option"
  arg_key :: "string option"
  arg_expiry :: "64 word option"

text \<open>The value of a flag: the one given, else the default the flag was declared with.\<close>

definition flag_value :: "'a \<Rightarrow> 'a option \<Rightarrow> 'a" where
  "flag_value dflt given = (case given of None \<Rightarrow> dflt | Some v \<Rightarrow> v)"

text \<open>
  How a command handler ends: \<^verbatim>\<open>utils.ExitWithError\<close> (the message goes to standard error,
  the exit status is 1), or the last line it prints.
\<close>

datatype outcome = ExitWithError string | Printed string

definition handlePresignCommand :: "presigner \<Rightarrow> R2Config \<Rightarrow> presign_args \<Rightarrow> outcome" where
  "handlePresignCommand presign cfg args =
     (let bucketName = flag_value (DefaultBucket cfg) (arg_bucket args);
          objectKey = flag_value [] (arg_key args);
          expiryHours = flag_value 24 (arg_expiry args)
      in if bucketName = [] then
           ExitWithError ''Bucket name not specified. Use -b or --bucket flag, or set DefaultBucket in config.''
         else if objectKey = [] then
           ExitWithError ''Object key not specified. Use -k or --key flag.''
         else
           (case GeneratePresignedURLWithExpiry presign bucketName objectKey (expiryHours * Hour) of
              Inl err \<Rightarrow>
                ExitWithError (''Failed to generate presigned URL for object '' @ quoted objectKey
                               @ '': '' @ err)
            | Inr url \<Rightarrow> Printed (''Presigned URL: '' @ url)))"

text \<open>A presigner that puts the expiry, in seconds, into the URL.\<close>

definition echo_presigner :: presigner where
  "echo_presigner bucket key expiry =
     (if expiry = 0 then Inl ''expiry must be positive''
      else Inr (''https://r2.example/'' @ bucket @ ''/'' @ key @ ''?expires=''
                @ (if expiry = 24 * Hour then ''86400'' else ''other'')))"

section \<open>Download destination (package main)\<close>

text \<open>
  The functions of the Go standard library that \<^verbatim>\<open>handleDownloadCommand\<close> calls, on a
  system whose path separator is \<^verbatim>\<open>/\<close>, over strings as byte sequences.
\<close>

text \<open>
  \<^verbatim>\<open>strings.ReplaceAll(s, old, new)\<close>: the non-overlapping occurrences of \<open>old\<close> are
  replaced from the left. For an empty \<open>old\<close> Go inserts \<open>new\<close> before every character
  and at the end.
\<close>

function ReplaceAll :: "string \<Rightarrow> string \<Rightarrow> string \<Rightarrow> string" where
  "ReplaceAll s old new =
     (if old = [] then concat (map (\<lambda>c. new @ [c]) s) @ new
      else if s = [] then []
      else if take (length old) s = old then new @ ReplaceAll (drop (length old) s) old new
      else hd s # ReplaceAll (tl s) old new)"
  by pat_completeness auto
termination
  by (relation "measure (\<lambda>(s, old, new). length s)") auto

declare ReplaceAll.simps [simp del]

text \<open>\<^verbatim>\<open>strings.Split(s, "/")\<close> and \<^verbatim>\<open>strings.Join(elems, "/")\<close>.\<close>

fun split_slash :: "string \<Rightarrow> string list" where
  "split_slash [] = [[]]"
| "split_slash (c # cs) =
     (if c = CHR ''/'' then [] # split_slash cs
      else (case split_slash cs of
              [] \<Rightarrow> [[c]]
            | e # es \<Rightarrow> (c # e) # es))"

fun join_slash :: "string list \<Rightarrow> string" where
  "join_slash [] = []"
| "join_slash [e] = e"
| "join_slash (e # es) = e @ ''/'' @ join_slash es"

text \<open>
  \<^verbatim>\<open>filepath.Clean\<close>: empty and \<^verbatim>\<open>.\<close> elements go; a \<^verbatim>\<open>..\<close> element removes the element
  before it, is dropped at the root, and is kept at the start of a relative path. \<open>out\<close>
  holds the elements kept so far, the last one first.
\<close>

fun clean_elems :: "bool \<Rightarrow> string list \<Rightarrow> string list \<Rightarrow> string list" where
  "clean_elems rooted out [] = rev out"
| "clean_elems rooted out (e # es) =
     (if e = [] \<or> e = ''.'' then clean_elems rooted out es
      else if e = ''..'' then
        (case out of
           [] \<Rightarrow> if rooted then clean_elems rooted out es else clean_elems rooted [''..''] es
         | prev # rest \<Rightarrow>
             if prev = ''..'' then clean_elems rooted (''..'' # out) es
             else clean_elems rooted rest es)
      else clean_elems rooted (e # out) es)"

definition Clean :: "string \<Rightarrow> string" where
  "Clean path =
     (if path = [] then ''.''
      else let rooted = (hd path = CHR ''/'');
               kept = join_slash (clean_elems rooted [] (split_slash path))
           in if rooted then ''/'' @ kept
              else if kept = [] then ''.'' else kept)"

text \<open>\<^verbatim>\<open>filepath.Join\<close>: the elements from the first non-empty one on, joined and cleaned.\<close>

definition Join :: "string list \<Rightarrow> string" where
  "Join elem =
     (case dropWhile (\<lambda>e. e = []) elem of
        [] \<Rightarrow> []
      | es \<Rightarrow> Clean (join_slash es))"

text \<open>\<^verbatim>\<open>filepath.Base\<close>: the last element of the path, trailing slashes removed first.\<close>

definition Base :: "string \<Rightarrow> string" where
  "Base path =
     (if path = [] then ''.''
      else let stripped = rev (dropWhile (\<lambda>c. c = CHR ''/'') (rev path));
               last_elem = rev (takeWhile (\<lambda>c. c \<noteq> CHR ''/'') (rev stripped))
           in if last_elem = [] then ''/'' else last_elem)"

text \<open>
  \<^verbatim>\<open>os.Stat\<close> on the local file system: \<open>None\<close> when it returns an error, else whether
  the path is a directory.
\<close>

type_synonym filesystem = "string \<Rightarrow> bool option"

text \<open>The computation of \<^verbatim>\<open>finalOutputPath\<close> in \<^verbatim>\<open>handleDownloadCommand\<close>.\<close>

definition finalOutputPath :: "filesystem \<Rightarrow> string \<Rightarrow> string \<Rightarrow> string" where
  "finalOutputPath stat objectKey outputPath =
     (if outputPath = [] then
        Join [''.'', ReplaceAll objectKey ''/'' ''_'']
      else
        (case stat outputPath of
           Some True \<Rightarrow> Join [outputPath, Base objectKey]
         | _ \<Rightarrow> outputPath))"

text \<open>
  The flags of \<^verbatim>\<open>download\<close> after parsing: for each of \<^verbatim>\<open>-b/--bucket\<close>, \<^verbatim>\<open>-k/--key\<close>
  and \<^verbatim>\<open>-o/--output\<close> the last value given, if any.
\<close>

record download_args =
  dl_bucket :: "string option"
  dl_key :: "string option"
  dl_output :: "string option"

text \<open>
  \<^verbatim>\<open>handleDownloadCommand\<close> up to its call of \<^verbatim>\<open>r2.DownloadObject\<close>: the message it exits
  with, or the bucket, the key and the local path it passes to the call.
\<close>

definition handleDownloadCommand ::
  "filesystem \<Rightarrow> R2Config \<Rightarrow> download_args \<Rightarrow> string + (string \<times> string \<times> string)" where
  "handleDownloadCommand stat cfg args =
     (let bucketName = flag_value (DefaultBucket cfg) (dl_bucket args);
          objectKey = flag_value [] (dl_key args);
          outputPath = flag_value [] (dl_output args)
      in if bucketName = [] then
           Inl ''Bucket name not specified. Use -b or --bucket flag, or set DefaultBucket in config.''
         else if objectKey = [] then
           Inl ''Object key not specified. Use -k or --key flag.''
         else Inr (bucketName, objectKey, finalOutputPath stat objectKey outputPath))"

text \<open>The key with every \<^verbatim>\<open>/\<close> replaced by \<^verbatim>\<open>_\<close>.\<close>

definition underscored :: "string \<Rightarrow> string" where
  "underscored key = map (\<lambda>c. if c = CHR ''/'' then CHR ''_'' else c) key"

text \<open>A file system in which \<^verbatim>\<open>/tmp/out\<close> is a directory and \<^verbatim>\<open>/tmp/f\<close> a file.\<close>

definition some_fs :: filesystem where
  "some_fs = [''/tmp/out'' \<mapsto> True, ''/tmp/f'' \<mapsto> False]"

section \<open>Transfer progress\<close>

text \<open>
  A \<^verbatim>\<open>float64\<close> is modelled by its value: a finite number, an infinity, or not a number.
  Zero stands for \<^verbatim>\<open>+0\<close>, the only zero a conversion from an integer gives. The rounding
  of a result to the nearest \<^verbatim>\<open>float64\<close> is the parameter \<open>rnd\<close> of every operation
  (\<open>rnd64\<close> below is the rounding of the machine);
  the integers up to \<open>2 ^ 53\<close> in magnitude are \<^verbatim>\<open>float64\<close> values and convert exactly.
  Overflow to an infinity does not arise for the quotients and products of converted
  \<^verbatim>\<open>int64\<close> values and is not modelled.
\<close>

datatype float64 = Fin rat | PosInf | NegInf | NaN

definition float64_of_int64 :: "(rat \<Rightarrow> rat) \<Rightarrow> 64 word \<Rightarrow> float64" where
  "float64_of_int64 rnd i =
     (if \<bar>sint i\<bar> \<le> 2 ^ 53 then Fin (of_int (sint i)) else Fin (rnd (of_int (sint i))))"

text \<open>Division: a finite value over zero is an infinity, zero over zero is not a number.\<close>

fun float64_div :: "(rat \<Rightarrow> rat) \<Rightarrow> float64 \<Rightarrow> float64 \<Rightarrow> float64" where
  "float64_div rnd (Fin a) (Fin b) =
     (if b = 0 then (if a = 0 then NaN else if 0 < a then PosInf else NegInf)
      else Fin (rnd (a / b)))"
| "float64_div rnd (Fin a) PosInf = Fin 0"
| "float64_div rnd (Fin a) NegInf = Fin 0"
| "float64_div rnd PosInf (Fin b) = (if 0 \<le> b then PosInf else NegInf)"
| "float64_div rnd NegInf (Fin b) = (if 0 \<le> b then NegInf else PosInf)"
| "float64_div rnd x y = NaN"

fun float64_mul :: "(rat \<Rightarrow> rat) \<Rightarrow> float64 \<Rightarrow> float64 \<Rightarrow> float64" where
  "float64_mul rnd (Fin a) (Fin b) = Fin (rnd (a * b))"
| "float64_mul rnd PosInf (Fin b) = (if b = 0 then NaN else if 0 < b then PosInf else NegInf)"
| "float64_mul rnd NegInf (Fin b) = (if b = 0 then NaN else if 0 < b then NegInf else PosInf)"
| "float64_mul rnd (Fin a) PosInf = (if a = 0 then NaN else if 0 < a then PosInf else NegInf)"
| "float64_mul rnd (Fin a) NegInf = (if a = 0 then NaN else if 0 < a then NegInf else PosInf)"
| "float64_mul rnd PosInf PosInf = PosInf"
| "float64_mul rnd NegInf NegInf = PosInf"
| "float64_mul rnd PosInf NegInf = NegInf"
| "float64_mul rnd NegInf PosInf = NegInf"
| "float64_mul rnd x y = NaN"

text \<open>
  The rounding of \<^verbatim>\<open>float64\<close> arithmetic, as IEEE 754 gives it for the normal range:
  to the nearest number with a significand of 53 bits, a tie to the one whose last bit is
  even. \<open>binade k x\<close> is the power of two \<open>b\<close> with \<open>b \<le> x < 2 * b\<close>, found in at
  most \<open>k\<close> steps; \<open>rnd64\<close> rounds the magnitude to a multiple of \<open>b / 2 ^ 52\<close>.
  Every quotient and product of the progress computation lies between \<open>2 ^ -64\<close> and
  \<open>2 ^ 71\<close> in magnitude or is zero, well inside the range.
\<close>

definition round_half_even :: "rat \<Rightarrow> int" where
  "round_half_even x =
     (let f = \<lfloor>x\<rfloor>; d = x - of_int f
      in if d < 1 / 2 then f
         else if 1 / 2 < d then f + 1
         else if even f then f else f + 1)"



text \<open>
  What is written to standard output: a line of text, or the progress line
  \<^verbatim>\<open>"\r%d / %d (%.2f%%)"\<close>, given by its three operands; \<open>render\<close> below gives the
  characters written.
\<close>

datatype console =
    Line string
  | Progress (shown_transferred: "64 word") (shown_total: "64 word") (shown_percentage: float64)

text \<open>The verb \<^verbatim>\<open>%d\<close>: an integer in decimal.\<close>

function show_nat :: "nat \<Rightarrow> string" where
  "show_nat n =
     (if n < 10 then [''0123456789'' ! n]
      else show_nat (n div 10) @ [''0123456789'' ! (n mod 10)])"
  by pat_completeness auto
termination
  by (relation "measure (\<lambda>n. n)") auto

declare show_nat.simps [simp del]

definition show_int :: "int \<Rightarrow> string" where
  "show_int i = (if i < 0 then ''-'' @ show_nat (nat (- i)) else show_nat (nat i))"

text \<open>
  The verb \<^verbatim>\<open>%.2f\<close>: the value rounded to two decimals, a tie to the even digit; the
  infinities and not-a-number by name. \<open>hundredths x\<close> is the magnitude printed, counted in
  hundredths, and \<open>f2_value x\<close> the number the printed text denotes.
\<close>

definition hundredths :: "rat \<Rightarrow> nat" where
  "hundredths x = nat (round_half_even (\<bar>x\<bar> * 100))"


fun format_f2 :: "float64 \<Rightarrow> string" where
  "format_f2 (Fin x) =
     (if x < 0 then ''-'' else []) @ show_nat (hundredths x div 100) @ ''.''
       @ [''0123456789'' ! (hundredths x mod 100 div 10), ''0123456789'' ! (hundredths x mod 10)]"
| "format_f2 PosInf = ''+Inf''"
| "format_f2 NegInf = ''-Inf''"
| "format_f2 NaN = ''NaN''"

text \<open>
  The characters written: a line ends with a newline (\<^verbatim>\<open>fmt.Println\<close>), the progress line
  starts with a carriage return and has no newline.
\<close>

fun render :: "console \<Rightarrow> string" where
  "render (Line s) = s @ [CHR 0x0A]"
| "render (Progress tr tot pct) =
     CHR 0x0D # show_int (sint tr) @ '' / '' @ show_int (sint tot) @ '' ('' @ format_f2 pct @ ''%)''"

record progressWriter =
  pw_total :: "64 word"
  pw_transferred :: "64 word"


text \<open>
  \<^verbatim>\<open>progressWriter.Write\<close>. The embedded writer is an input: \<open>(n, err)\<close> is what its
  \<^verbatim>\<open>Write(p)\<close> returns. The result is what the method returns, the writer afterwards and
  what it printed.
\<close>

definition progressWriter_Write ::
  "(rat \<Rightarrow> rat) \<Rightarrow> progressWriter \<Rightarrow> 64 word \<times> string option
     \<Rightarrow> (64 word \<times> string option) \<times> progressWriter \<times> console list" where
  "progressWriter_Write rnd pw inner =
     (case inner of
        (n, Some err) \<Rightarrow> ((n, Some err), pw, [])
      | (n, None) \<Rightarrow>
          (let pw' = pw\<lparr>pw_transferred := pw_transferred pw + n\<rparr>;
               percentage =
                 float64_mul rnd
                   (float64_div rnd (float64_of_int64 rnd (pw_transferred pw'))
                                    (float64_of_int64 rnd (pw_total pw')))
                   (Fin 100)
           in ((n, None), pw', [Progress (pw_transferred pw') (pw_total pw') percentage])))"


text \<open>
  The response of \<^verbatim>\<open>client.GetObject\<close>: the content length, if the store sent one, the
  chunks the successive reads of the body deliver, and the error that ends the body, if it
  does not end with \<^verbatim>\<open>io.EOF\<close>.
\<close>

record GetObjectOutput =
  ContentLength :: "64 word option"
  Body :: "string list"
  BodyError :: "string option"

text \<open>
  \<^verbatim>\<open>io.Copy(pw, resp.Body)\<close>, the loop of \<^verbatim>\<open>io.copyBuffer\<close>: a read that returned
  bytes is written through the progress writer, a read of no bytes is not; a write that
  reports fewer than zero or more than the bytes given is an invalid write; the copy stops at
  the first write error or short write, and ends with the error that ended the body, if any.
  \<open>fw\<close> is \<^verbatim>\<open>file.Write\<close>.
\<close>

fun io_Copy ::
  "(rat \<Rightarrow> rat) \<Rightarrow> (string \<Rightarrow> 64 word \<times> string option) \<Rightarrow> string option \<Rightarrow> progressWriter
     \<Rightarrow> string list \<Rightarrow> string option \<times> progressWriter \<times> console list" where
  "io_Copy rnd fw er pw [] = (er, pw, [])"
| "io_Copy rnd fw er pw (p # ps) =
     (if p = [] then io_Copy rnd fw er pw ps
      else
        (case progressWriter_Write rnd pw (fw p) of
           ((nw, ew), pw', out) \<Rightarrow>
             (let invalid = (sint nw < 0 \<or> int (length p) < sint nw);
                  ew' = (if invalid \<and> ew = None then Some ''invalid write result'' else ew)
              in (case ew' of
                    Some e \<Rightarrow> (Some e, pw', out)
                  | None \<Rightarrow>
                      if int (length p) \<noteq> sint nw then (Some ''short write'', pw', out)
                      else (case io_Copy rnd fw er pw' ps of
                              (err, pw'', out') \<Rightarrow> (err, pw'', out @ out'))))))"

text \<open>
  \<^verbatim>\<open>DownloadObject\<close>. \<open>getObject\<close> is \<^verbatim>\<open>client.GetObject\<close>, \<open>create\<close> the error of
  \<^verbatim>\<open>os.Create\<close>, \<open>fw\<close> the \<^verbatim>\<open>Write\<close> of the created file. The result is the error
  returned and what was printed.
\<close>

definition DownloadObject ::
  "(rat \<Rightarrow> rat) \<Rightarrow> (string \<Rightarrow> string \<Rightarrow> string + GetObjectOutput) \<Rightarrow> (string \<Rightarrow> string option)
     \<Rightarrow> (string \<Rightarrow> 64 word \<times> string option) \<Rightarrow> string \<Rightarrow> string \<Rightarrow> string
     \<Rightarrow> string option \<times> console list" where
  "DownloadObject rnd getObject create fw bucketName objectKey localFilePath =
     (case getObject bucketName objectKey of
        Inl err \<Rightarrow>
          (Some (''failed to get object '' @ quoted objectKey @ '' from bucket ''
                 @ quoted bucketName @ '': '' @ err), [])
      | Inr resp \<Rightarrow>
          (case create localFilePath of
             Some err \<Rightarrow>
               (Some (''failed to create local file '' @ quoted localFilePath @ '': '' @ err), [])
           | None \<Rightarrow>
               (let (totalSize, warning) =
                      (case ContentLength resp of
                         Some n \<Rightarrow> (n, [])
                       | None \<Rightarrow>
                           (0, [Line ''Warning: ContentLength not available, download progress percentage will not be shown.'']));
                    pw = \<lparr>pw_total = totalSize, pw_transferred = 0\<rparr>
                in (case io_Copy rnd fw (BodyError resp) pw (Body resp) of
                      (Some err, pw', out) \<Rightarrow>
                        (Some (''failed to write object content to file '' @ quoted localFilePath
                               @ '': '' @ err), warning @ out)
                    | (None, pw', out) \<Rightarrow> (None, warning @ out @ [Line []])))))"

text \<open>A store whose response has no content length, and a file that takes every write.\<close>

definition no_length_store :: "string \<Rightarrow> string \<Rightarrow> string + GetObjectOutput" where
  "no_length_store bucket key = Inr \<lparr>ContentLength = None, Body = [''hello''], BodyError = None\<rparr>"

definition create_ok :: "string \<Rightarrow> string option" where
  "create_ok path = None"

definition write_all :: "string \<Rightarrow> 64 word \<times> string option" where
  "write_all p = (of_nat (length p), None)"

section \<open>Properties of configuration loading\<close>

lemma field_value_override_env:
  "field_value f (override_env env cfg) =
     (if Getenv env (env_var f) \<noteq> [] then Getenv env (env_var f) else field_value f cfg)"
  by (cases f) (simp_all add: override_env_def Let_def)

lemma validate_Inr_iff: "validate c = Inr c' \<longleftrightarrow> c' = c \<and> all_set c"
  by (auto simp: validate_def all_set_def)

lemma validate_first_empty:
  "validate c = (case first_empty c of None \<Rightarrow> Inr c | Some f \<Rightarrow> Inl (NotSet f))"
  by (simp add: validate_def first_empty_def)

lemma first_empty_is_empty: "first_empty c = Some f \<Longrightarrow> field_value f c = []"
  by (cases f) (auto simp: first_empty_def split: if_splits)

lemma first_empty_None_iff: "first_empty c = None \<longleftrightarrow> all_set c"
  by (simp add: first_empty_def all_set_def)

text \<open>
  Claim C3. For each of the four fields, the merged configuration holds the value of the
  field's environment variable when that variable is set and non-empty, also when the file
  gave the field a value; when the variable is unset or empty the file-derived value is
  kept. The same holds of the configuration \<^verbatim>\<open>LoadConfig\<close> returns: it is the file's
  configuration (the zero configuration when the file is absent) overridden field by field.
\<close>

theorem env_overrides_file:
  "(env (env_var f) = Some v \<and> v \<noteq> [] \<longrightarrow> field_value f (override_env env cfg) = v)
   \<and> (env (env_var f) = None \<or> env (env_var f) = Some [] \<longrightarrow>
        field_value f (override_env env cfg) = field_value f cfg)
   \<and> (LoadConfig file env = Inr c \<longrightarrow>
        (\<exists>fc. load_file file = Inr fc \<and>
           field_value f c =
             (if Getenv env (env_var f) \<noteq> [] then Getenv env (env_var f) else field_value f fc)))"
proof (intro conjI impI)
  assume "env (env_var f) = Some v \<and> v \<noteq> []"
  then show "field_value f (override_env env cfg) = v"
    by (simp add: field_value_override_env Getenv_def)
next
  assume "env (env_var f) = None \<or> env (env_var f) = Some []"
  then show "field_value f (override_env env cfg) = field_value f cfg"
    by (auto simp: field_value_override_env Getenv_def)
next
  assume ok: "LoadConfig file env = Inr c"
  then obtain fc where fc: "load_file file = Inr fc" and v: "validate (override_env env fc) = Inr c"
    by (auto simp: LoadConfig_def split: sum.splits)
  from v have "c = override_env env fc"
    by (simp add: validate_Inr_iff)
  with fc show "\<exists>fc. load_file file = Inr fc \<and>
           field_value f c =
             (if Getenv env (env_var f) \<noteq> [] then Getenv env (env_var f) else field_value f fc)"
    by (simp add: field_value_override_env)
qed

theorem env_overrides_file_witness:
  "full_env (env_var FDefaultBucket) = Some ''bkt'' \<and> ''bkt'' \<noteq> []
   \<and> field_value FDefaultBucket (override_env full_env file_config) = ''bkt''
   \<and> Map.empty (env_var FAccountID) = (None :: string option)
   \<and> field_value FAccountID (override_env Map.empty file_config) = ''facct''
   \<and> LoadConfig (Parsed file_config) (Map.empty(''CFR2_DEFAULT_BUCKET'' \<mapsto> ''bkt''))
       = Inr (file_config\<lparr>DefaultBucket := ''bkt''\<rparr>)
   \<and> field_value FDefaultBucket (file_config\<lparr>DefaultBucket := ''bkt''\<rparr>) = ''bkt''"
proof -
  have e: "full_env (env_var FDefaultBucket) = Some ''bkt'' \<and> ''bkt'' \<noteq> []"
    by (simp add: full_env_def)
  have l: "LoadConfig (Parsed file_config) (Map.empty(''CFR2_DEFAULT_BUCKET'' \<mapsto> ''bkt''))
       = Inr (file_config\<lparr>DefaultBucket := ''bkt''\<rparr>)"
    by (simp add: LoadConfig_def override_env_def Getenv_def validate_def file_config_def)
  from env_overrides_file [of full_env FDefaultBucket "''bkt''" file_config
      "Parsed file_config" "file_config\<lparr>DefaultBucket := ''bkt''\<rparr>"] e
  have a: "field_value FDefaultBucket (override_env full_env file_config) = ''bkt''"
    by blast
  from env_overrides_file [of Map.empty FAccountID "''x''" file_config
      "Parsed file_config" "file_config"]
  have b: "field_value FAccountID (override_env Map.empty file_config) = ''facct''"
    by (simp add: file_config_def)
  from env_overrides_file [of "Map.empty(''CFR2_DEFAULT_BUCKET'' \<mapsto> ''bkt'')" FDefaultBucket
      _ _ "Parsed file_config" "file_config\<lparr>DefaultBucket := ''bkt''\<rparr>"] l
  have c: "field_value FDefaultBucket (file_config\<lparr>DefaultBucket := ''bkt''\<rparr>) = ''bkt''"
    by simp
  show ?thesis using e a b l c by simp
qed

text \<open>
  Claim C7, as stated, fails on the code. A file that \<^verbatim>\<open>os.Stat\<close> finds and
  \<^verbatim>\<open>os.ReadFile\<close> cannot read makes
  \<^verbatim>\<open>LoadConfig\<close> return an error before the environment is looked at, also when the
  environment alone makes all four fields non-empty; and with several fields empty the error
  names the first of them only: with no file and an empty environment \<open>DefaultBucket\<close> is
  empty, yet the error names \<open>AccountID\<close>.
\<close>

theorem load_config_counterexample:
  "LoadConfig (Unreadable ''permission denied'') full_env = Inl (ReadFailed ''permission denied'')
   \<and> all_set (override_env full_env zero_config)
   \<and> field_value FDefaultBucket (override_env Map.empty zero_config) = []
   \<and> LoadConfig Absent Map.empty = Inl (NotSet FAccountID)
   \<and> NotSet FAccountID \<noteq> NotSet FDefaultBucket"
  by (simp add: LoadConfig_def all_set_def override_env_def Getenv_def full_env_def
      zero_config_def validate_def)

text \<open>
  Claim C7, amended. \<^verbatim>\<open>LoadConfig\<close> succeeds, returning the merged configuration,
  exactly when the file stage succeeds (\<^verbatim>\<open>os.Stat\<close> returns an error, or the file was
  read and unmarshalled without error) and all four fields are non-empty after the merge. A missing file, and any
  file for which \<^verbatim>\<open>os.Stat\<close> returns an error, is not an error: loading then validates the
  environment's values alone. A file for which \<^verbatim>\<open>os.Stat\<close> succeeds and whose read or
  unmarshalling fails is an error whatever the environment holds. When the file stage
  succeeds and some field is empty after the merge, the result is the error naming the first
  empty field in the order AccountID, AccessKeyID, SecretAccessKey, DefaultBucket.
\<close>

theorem load_config_result:
  "(LoadConfig file env = Inr c \<longleftrightarrow>
      (\<exists>fc. load_file file = Inr fc \<and> c = override_env env fc \<and> all_set c))
   \<and> LoadConfig Absent env = validate (override_env env zero_config)
   \<and> (load_file file = Inl e \<longrightarrow> LoadConfig file env = Inl e)
   \<and> (load_file file = Inr fc \<and> \<not> all_set (override_env env fc) \<longrightarrow>
        (\<exists>f. first_empty (override_env env fc) = Some f
           \<and> field_value f (override_env env fc) = []
           \<and> LoadConfig file env = Inl (NotSet f)))"
proof (intro conjI impI)
  show "LoadConfig file env = Inr c \<longleftrightarrow>
      (\<exists>fc. load_file file = Inr fc \<and> c = override_env env fc \<and> all_set c)"
    by (cases "load_file file") (auto simp: LoadConfig_def validate_Inr_iff)
next
  show "LoadConfig Absent env = validate (override_env env zero_config)"
    by (simp add: LoadConfig_def)
next
  assume "load_file file = Inl e"
  then show "LoadConfig file env = Inl e"
    by (simp add: LoadConfig_def)
next
  assume a: "load_file file = Inr fc \<and> \<not> all_set (override_env env fc)"
  then obtain f where f: "first_empty (override_env env fc) = Some f"
    using first_empty_None_iff [of "override_env env fc"] by (cases "first_empty (override_env env fc)") auto
  from a f have "LoadConfig file env = Inl (NotSet f)"
    by (simp add: LoadConfig_def validate_first_empty)
  with f first_empty_is_empty [OF f]
  show "\<exists>f. first_empty (override_env env fc) = Some f
           \<and> field_value f (override_env env fc) = []
           \<and> LoadConfig file env = Inl (NotSet f)"
    by blast
qed

theorem load_config_result_witness:
  "LoadConfig Absent full_env = Inr (override_env full_env zero_config)
   \<and> load_file (Malformed ''bad toml'') = Inl (UnmarshalFailed ''bad toml'')
   \<and> LoadConfig (Malformed ''bad toml'') full_env = Inl (UnmarshalFailed ''bad toml'')
   \<and> load_file (Parsed (file_config\<lparr>SecretAccessKey := []\<rparr>)) = Inr (file_config\<lparr>SecretAccessKey := []\<rparr>)
   \<and> \<not> all_set (override_env Map.empty (file_config\<lparr>SecretAccessKey := []\<rparr>))
   \<and> LoadConfig (Parsed (file_config\<lparr>SecretAccessKey := []\<rparr>)) Map.empty = Inl (NotSet FSecretAccessKey)"
proof -
  have s: "all_set (override_env full_env zero_config)"
    by (simp add: all_set_def override_env_def Getenv_def full_env_def zero_config_def)
  from load_config_result [of Absent full_env "override_env full_env zero_config"] s
  have a: "LoadConfig Absent full_env = Inr (override_env full_env zero_config)"
    by simp
  have m: "load_file (Malformed ''bad toml'') = Inl (UnmarshalFailed ''bad toml'')"
    by simp
  from load_config_result [of "Malformed ''bad toml''" full_env _ "UnmarshalFailed ''bad toml''"] m
  have b: "LoadConfig (Malformed ''bad toml'') full_env = Inl (UnmarshalFailed ''bad toml'')"
    by blast
  let ?c = "file_config\<lparr>SecretAccessKey := []\<rparr>"
  have p: "load_file (Parsed ?c) = Inr ?c \<and> \<not> all_set (override_env Map.empty ?c)"
    by (simp add: all_set_def override_env_def Getenv_def file_config_def)
  from load_config_result [of "Parsed ?c" Map.empty _ _ ?c] p
  obtain f where f: "first_empty (override_env Map.empty ?c) = Some f"
    and r: "LoadConfig (Parsed ?c) Map.empty = Inl (NotSet f)"
    by blast
  from f have "f = FSecretAccessKey"
    by (simp add: first_empty_def override_env_def Getenv_def file_config_def)
  with r have c: "LoadConfig (Parsed ?c) Map.empty = Inl (NotSet FSecretAccessKey)"
    by simp
  show ?thesis using a m b p c by simp
qed

section \<open>Properties of rename\<close>

lemma RenameObject_copy_failed:
  assumes "client_CopyObject c b (b @ ''/'' @ old) new (remote w) = (Some e, s')"
  shows "RenameObject c b old new w =
     (Some (''failed to copy object from '' @ quoted old @ '' to '' @ quoted new
            @ '' in bucket '' @ quoted b @ '': '' @ e),
      \<lparr>remote = s', requests = requests w @ [CopyObjectInput b (b @ ''/'' @ old) new]\<rparr>)"
  using assms by (simp add: RenameObject_def call_CopyObject_def)

lemma RenameObject_copied:
  assumes "client_CopyObject c b (b @ ''/'' @ old) new (remote w) = (None, s1)"
  shows "RenameObject c b old new w =
     (case client_DeleteObject c b old s1 of
        (Some e, s2) \<Rightarrow>
          (Some (''copy successful but failed to delete original object '' @ quoted old
                 @ '' from bucket '' @ quoted b @ '': '' @ ''failed to delete object ''
                 @ quoted old @ '' from bucket '' @ quoted b @ '': '' @ e),
           \<lparr>remote = s2, requests = requests w @
              [CopyObjectInput b (b @ ''/'' @ old) new, DeleteObjectInput b old]\<rparr>)
      | (None, s2) \<Rightarrow>
          (None, \<lparr>remote = s2, requests = requests w @
              [CopyObjectInput b (b @ ''/'' @ old) new, DeleteObjectInput b old]\<rparr>))"
  using assms
  by (simp add: RenameObject_def call_CopyObject_def DeleteObject_def call_DeleteObject_def
      split: prod.splits option.splits)

text \<open>
  Claim C4. \<^verbatim>\<open>RenameObject\<close> is copy, then delete. When the copy request fails, the
  operation returns the error of the copy step, the copy is the only request it has made (the
  delete is not attempted) and the store is the one the failed copy left: the initial store
  when a failed copy changes nothing. When the copy succeeds, the delete of the old key is
  the next and last request, made on the store the copy left. On the reference store, whose
  failed requests change nothing, a rename whose copy fails leaves the store as it was.
\<close>

theorem rename_copy_then_delete:
  "(client_CopyObject c b (b @ ''/'' @ old) new (remote w) = (Some e, s') \<longrightarrow>
      RenameObject c b old new w =
        (Some (''failed to copy object from '' @ quoted old @ '' to '' @ quoted new
               @ '' in bucket '' @ quoted b @ '': '' @ e),
         \<lparr>remote = s', requests = requests w @ [CopyObjectInput b (b @ ''/'' @ old) new]\<rparr>)
      \<and> (s' = remote w \<longrightarrow> remote (snd (RenameObject c b old new w)) = remote w))
   \<and> (client_CopyObject c b (b @ ''/'' @ old) new (remote w) = (None, s1) \<longrightarrow>
      requests (snd (RenameObject c b old new w)) =
        requests w @ [CopyObjectInput b (b @ ''/'' @ old) new, DeleteObjectInput b old]
      \<and> remote (snd (RenameObject c b old new w)) = snd (client_DeleteObject c b old s1))
   \<and> (fst (client_CopyObject (mem_client faults) b (b @ ''/'' @ old) new st) \<noteq> None \<longrightarrow>
      fst (RenameObject (mem_client faults) b old new (start st)) \<noteq> None
      \<and> snd (RenameObject (mem_client faults) b old new (start st)) =
          \<lparr>remote = st, requests = [CopyObjectInput b (b @ ''/'' @ old) new]\<rparr>)"
proof (intro conjI impI)
  assume a: "client_CopyObject c b (b @ ''/'' @ old) new (remote w) = (Some e, s')"
  show r: "RenameObject c b old new w =
        (Some (''failed to copy object from '' @ quoted old @ '' to '' @ quoted new
               @ '' in bucket '' @ quoted b @ '': '' @ e),
         \<lparr>remote = s', requests = requests w @ [CopyObjectInput b (b @ ''/'' @ old) new]\<rparr>)"
    by (rule RenameObject_copy_failed [OF a])
  assume "s' = remote w"
  then show "remote (snd (RenameObject c b old new w)) = remote w"
    by (simp add: r)
next
  assume a: "client_CopyObject c b (b @ ''/'' @ old) new (remote w) = (None, s1)"
  show "requests (snd (RenameObject c b old new w)) =
        requests w @ [CopyObjectInput b (b @ ''/'' @ old) new, DeleteObjectInput b old]"
    using RenameObject_copied [OF a] by (simp split: prod.splits option.splits)
  show "remote (snd (RenameObject c b old new w)) = snd (client_DeleteObject c b old s1)"
    using RenameObject_copied [OF a] by (simp split: prod.splits option.splits)
next
  assume "fst (client_CopyObject (mem_client faults) b (b @ ''/'' @ old) new st) \<noteq> None"
  then obtain e' where
    "client_CopyObject (mem_client faults) b (b @ ''/'' @ old) new (remote (start st)) = (Some e', st)"
    by (auto simp: mem_client_def start_def split: option.splits)
  from RenameObject_copy_failed [OF this]
  have m: "RenameObject (mem_client faults) b old new (start st) =
     (Some (''failed to copy object from '' @ quoted old @ '' to '' @ quoted new
            @ '' in bucket '' @ quoted b @ '': '' @ e'),
      \<lparr>remote = st, requests = requests (start st) @ [CopyObjectInput b (b @ ''/'' @ old) new]\<rparr>)" .
  show "fst (RenameObject (mem_client faults) b old new (start st)) \<noteq> None"
    by (simp add: m)
  show "snd (RenameObject (mem_client faults) b old new (start st)) =
          \<lparr>remote = st, requests = [CopyObjectInput b (b @ ''/'' @ old) new]\<rparr>"
    using m by (simp add: start_def)
qed

theorem rename_copy_then_delete_witness:
  "client_CopyObject (mem_client copy_fails) ''bkt'' (''bkt'' @ ''/'' @ ''a.txt'') ''b.txt''
     (remote (start one_object)) = (Some ''InternalError'', one_object)
   \<and> RenameObject (mem_client copy_fails) ''bkt'' ''a.txt'' ''b.txt'' (start one_object) =
     (Some (''failed to copy object from '' @ quoted ''a.txt'' @ '' to '' @ quoted ''b.txt''
            @ '' in bucket '' @ quoted ''bkt'' @ '': InternalError''),
      \<lparr>remote = one_object, requests = [CopyObjectInput ''bkt'' ''bkt/a.txt'' ''b.txt'']\<rparr>)
   \<and> client_CopyObject (mem_client no_faults) ''bkt'' (''bkt'' @ ''/'' @ ''a.txt'') ''b.txt''
     (remote (start one_object)) = (None, one_object(''bkt/b.txt'' \<mapsto> ''hello''))
   \<and> requests (snd (RenameObject (mem_client no_faults) ''bkt'' ''a.txt'' ''b.txt'' (start one_object)))
       = [CopyObjectInput ''bkt'' ''bkt/a.txt'' ''b.txt'', DeleteObjectInput ''bkt'' ''a.txt'']
   \<and> remote (snd (RenameObject (mem_client no_faults) ''bkt'' ''a.txt'' ''b.txt'' (start one_object)))
       = [''bkt/b.txt'' \<mapsto> ''hello'']"
proof -
  have h: "client_CopyObject (mem_client copy_fails) ''bkt'' (''bkt'' @ ''/'' @ ''a.txt'') ''b.txt''
     (remote (start one_object)) = (Some ''InternalError'', one_object)"
    by (simp add: mem_client_def start_def)
  have g: "client_CopyObject (mem_client no_faults) ''bkt'' (''bkt'' @ ''/'' @ ''a.txt'') ''b.txt''
     (remote (start one_object)) = (None, one_object(''bkt/b.txt'' \<mapsto> ''hello''))"
    by (simp add: mem_client_def start_def one_object_def no_faults_def)
  have d: "snd (client_DeleteObject (mem_client no_faults) ''bkt'' ''a.txt''
       (one_object(''bkt/b.txt'' \<mapsto> ''hello''))) = [''bkt/b.txt'' \<mapsto> ''hello'']"
    by (auto simp: mem_client_def one_object_def no_faults_def)
  from rename_copy_then_delete [where c = "mem_client copy_fails" and b = "''bkt''"
      and old = "''a.txt''" and new = "''b.txt''" and w = "start one_object"
      and e = "''InternalError''" and s' = one_object] h
  have 1: "RenameObject (mem_client copy_fails) ''bkt'' ''a.txt'' ''b.txt'' (start one_object) =
     (Some (''failed to copy object from '' @ quoted ''a.txt'' @ '' to '' @ quoted ''b.txt''
            @ '' in bucket '' @ quoted ''bkt'' @ '': '' @ ''InternalError''),
      \<lparr>remote = one_object, requests = requests (start one_object) @
         [CopyObjectInput ''bkt'' (''bkt'' @ ''/'' @ ''a.txt'') ''b.txt'']\<rparr>)"
    by blast
  from rename_copy_then_delete [where c = "mem_client no_faults" and b = "''bkt''"
      and old = "''a.txt''" and new = "''b.txt''" and w = "start one_object"
      and ?s1.0 = "one_object(''bkt/b.txt'' \<mapsto> ''hello'')"] g
  have 2: "requests (snd (RenameObject (mem_client no_faults) ''bkt'' ''a.txt'' ''b.txt'' (start one_object))) =
        requests (start one_object) @ [CopyObjectInput ''bkt'' (''bkt'' @ ''/'' @ ''a.txt'') ''b.txt'',
          DeleteObjectInput ''bkt'' ''a.txt'']
      \<and> remote (snd (RenameObject (mem_client no_faults) ''bkt'' ''a.txt'' ''b.txt'' (start one_object)))
        = snd (client_DeleteObject (mem_client no_faults) ''bkt'' ''a.txt''
            (one_object(''bkt/b.txt'' \<mapsto> ''hello'')))"
    by blast
  show ?thesis using h g 1 2 d
    by (simp add: start_def)
qed

text \<open>
  Claim C5. When the copy succeeds and the delete of the old key fails, \<^verbatim>\<open>RenameObject\<close>
  returns an error whose message starts \<^verbatim>\<open>copy successful but failed to delete original
  object\<close>, unlike the message of a failed copy or of a plain failed delete; the requests made
  are the copy and the delete and nothing after them (no rollback of the copy), and the store
  is the one the failed delete left. On the reference store, where a failed request changes
  nothing, both the old and the new key then hold the object.
\<close>

theorem rename_delete_fails:
  assumes "client_CopyObject c b (b @ ''/'' @ old) new (remote w) = (None, s1)"
    and "client_DeleteObject c b old s1 = (Some e, s2)"
  shows "RenameObject c b old new w =
     (Some (''copy successful but failed to delete original object '' @ quoted old
            @ '' from bucket '' @ quoted b @ '': '' @ ''failed to delete object ''
            @ quoted old @ '' from bucket '' @ quoted b @ '': '' @ e),
      \<lparr>remote = s2, requests = requests w @
         [CopyObjectInput b (b @ ''/'' @ old) new, DeleteObjectInput b old]\<rparr>)
   \<and> fst (RenameObject c b old new w) \<noteq> Some (''failed to copy object from '' @ x)
   \<and> fst (RenameObject c b old new w) \<noteq> Some (''failed to delete object '' @ y)
   \<and> (st (b @ ''/'' @ old) = Some v \<and> faults (CopyObjectInput b (b @ ''/'' @ old) new) = None
        \<and> faults (DeleteObjectInput b old) = Some e' \<longrightarrow>
        fst (RenameObject (mem_client faults) b old new (start st)) \<noteq> None
        \<and> remote (snd (RenameObject (mem_client faults) b old new (start st))) (b @ ''/'' @ old) = Some v
        \<and> remote (snd (RenameObject (mem_client faults) b old new (start st))) (b @ ''/'' @ new) = Some v)"
proof (intro conjI impI)
  show r: "RenameObject c b old new w =
     (Some (''copy successful but failed to delete original object '' @ quoted old
            @ '' from bucket '' @ quoted b @ '': '' @ ''failed to delete object ''
            @ quoted old @ '' from bucket '' @ quoted b @ '': '' @ e),
      \<lparr>remote = s2, requests = requests w @
         [CopyObjectInput b (b @ ''/'' @ old) new, DeleteObjectInput b old]\<rparr>)"
    using RenameObject_copied [OF assms(1)] assms(2) by simp
  show "fst (RenameObject c b old new w) \<noteq> Some (''failed to copy object from '' @ x)"
    by (simp add: r)
  show "fst (RenameObject c b old new w) \<noteq> Some (''failed to delete object '' @ y)"
    by (simp add: r)
next
  assume a: "st (b @ ''/'' @ old) = Some v \<and> faults (CopyObjectInput b (b @ ''/'' @ old) new) = None
        \<and> faults (DeleteObjectInput b old) = Some e'"
  let ?s1 = "st(b @ ''/'' @ new \<mapsto> v)"
  have cp: "client_CopyObject (mem_client faults) b (b @ ''/'' @ old) new (remote (start st)) = (None, ?s1)"
    using a by (simp add: mem_client_def start_def)
  have dl: "client_DeleteObject (mem_client faults) b old ?s1 = (Some e', ?s1)"
    using a by (simp add: mem_client_def)
  have m: "RenameObject (mem_client faults) b old new (start st) =
     (Some (''copy successful but failed to delete original object '' @ quoted old
            @ '' from bucket '' @ quoted b @ '': '' @ ''failed to delete object ''
            @ quoted old @ '' from bucket '' @ quoted b @ '': '' @ e'),
      \<lparr>remote = ?s1, requests = requests (start st) @
         [CopyObjectInput b (b @ ''/'' @ old) new, DeleteObjectInput b old]\<rparr>)"
    using RenameObject_copied [OF cp] dl by simp
  show "fst (RenameObject (mem_client faults) b old new (start st)) \<noteq> None"
    by (simp add: m)
  show "remote (snd (RenameObject (mem_client faults) b old new (start st))) (b @ ''/'' @ old) = Some v"
    using a by (simp add: m)
  show "remote (snd (RenameObject (mem_client faults) b old new (start st))) (b @ ''/'' @ new) = Some v"
    by (simp add: m)
qed

theorem rename_delete_fails_witness:
  "client_CopyObject (mem_client delete_fails) ''bkt'' (''bkt'' @ ''/'' @ ''a.txt'') ''b.txt''
     (remote (start one_object)) = (None, one_object(''bkt/b.txt'' \<mapsto> ''hello''))
   \<and> client_DeleteObject (mem_client delete_fails) ''bkt'' ''a.txt''
       (one_object(''bkt/b.txt'' \<mapsto> ''hello''))
       = (Some ''AccessDenied'', one_object(''bkt/b.txt'' \<mapsto> ''hello''))
   \<and> requests (snd (RenameObject (mem_client delete_fails) ''bkt'' ''a.txt'' ''b.txt'' (start one_object)))
       = [CopyObjectInput ''bkt'' ''bkt/a.txt'' ''b.txt'', DeleteObjectInput ''bkt'' ''a.txt'']
   \<and> fst (RenameObject (mem_client delete_fails) ''bkt'' ''a.txt'' ''b.txt'' (start one_object)) \<noteq> None
   \<and> remote (snd (RenameObject (mem_client delete_fails) ''bkt'' ''a.txt'' ''b.txt'' (start one_object)))
        ''bkt/a.txt'' = Some ''hello''
   \<and> remote (snd (RenameObject (mem_client delete_fails) ''bkt'' ''a.txt'' ''b.txt'' (start one_object)))
        ''bkt/b.txt'' = Some ''hello''"
proof -
  have h1: "client_CopyObject (mem_client delete_fails) ''bkt'' (''bkt'' @ ''/'' @ ''a.txt'') ''b.txt''
     (remote (start one_object)) = (None, one_object(''bkt/b.txt'' \<mapsto> ''hello''))"
    by (simp add: mem_client_def start_def one_object_def)
  have h2: "client_DeleteObject (mem_client delete_fails) ''bkt'' ''a.txt''
       (one_object(''bkt/b.txt'' \<mapsto> ''hello''))
       = (Some ''AccessDenied'', one_object(''bkt/b.txt'' \<mapsto> ''hello''))"
    by (simp add: mem_client_def)
  have h3: "one_object (''bkt'' @ ''/'' @ ''a.txt'') = Some ''hello''
      \<and> delete_fails (CopyObjectInput ''bkt'' (''bkt'' @ ''/'' @ ''a.txt'') ''b.txt'') = None
      \<and> delete_fails (DeleteObjectInput ''bkt'' ''a.txt'') = Some ''AccessDenied''"
    by (simp add: one_object_def)
  from rename_delete_fails [OF h1 h2, where st = one_object and v = "''hello''"
      and faults = delete_fails and e' = "''AccessDenied''"] h3
  show ?thesis using h1 h2
    by (simp add: start_def)
qed

text \<open>
  Claim C10. \<^verbatim>\<open>RenameObject\<close> compares the two keys nowhere: with the same key \<open>k\<close> as
  old and new key it requests the copy of \<open>k\<close> onto itself and, when that copy succeeds,
  the delete of \<open>k\<close>. When the delete succeeds too the operation reports success, and on
  the reference store the object is then gone from under \<open>k\<close>.
\<close>

theorem rename_same_key:
  assumes "client_CopyObject c b (b @ ''/'' @ k) k (remote w) = (None, s1)"
  shows "requests (snd (RenameObject c b k k w)) =
           requests w @ [CopyObjectInput b (b @ ''/'' @ k) k, DeleteObjectInput b k]
   \<and> (client_DeleteObject c b k s1 = (None, s2) \<longrightarrow>
        RenameObject c b k k w =
          (None, \<lparr>remote = s2, requests = requests w @
             [CopyObjectInput b (b @ ''/'' @ k) k, DeleteObjectInput b k]\<rparr>))
   \<and> (st (b @ ''/'' @ k) = Some v \<and> faults (CopyObjectInput b (b @ ''/'' @ k) k) = None
        \<and> faults (DeleteObjectInput b k) = None \<longrightarrow>
        fst (RenameObject (mem_client faults) b k k (start st)) = None
        \<and> remote (snd (RenameObject (mem_client faults) b k k (start st))) (b @ ''/'' @ k) = None)"
proof (intro conjI impI)
  show "requests (snd (RenameObject c b k k w)) =
           requests w @ [CopyObjectInput b (b @ ''/'' @ k) k, DeleteObjectInput b k]"
    using RenameObject_copied [OF assms]
    by (simp split: prod.splits option.splits)
next
  assume "client_DeleteObject c b k s1 = (None, s2)"
  then show "RenameObject c b k k w =
          (None, \<lparr>remote = s2, requests = requests w @
             [CopyObjectInput b (b @ ''/'' @ k) k, DeleteObjectInput b k]\<rparr>)"
    using RenameObject_copied [OF assms] by simp
next
  assume a: "st (b @ ''/'' @ k) = Some v \<and> faults (CopyObjectInput b (b @ ''/'' @ k) k) = None
        \<and> faults (DeleteObjectInput b k) = None"
  let ?s1 = "st(b @ ''/'' @ k \<mapsto> v)"
  have cp: "client_CopyObject (mem_client faults) b (b @ ''/'' @ k) k (remote (start st)) = (None, ?s1)"
    using a by (simp add: mem_client_def start_def)
  have dl: "client_DeleteObject (mem_client faults) b k ?s1 = (None, ?s1(b @ ''/'' @ k := None))"
    using a by (simp add: mem_client_def)
  have m: "RenameObject (mem_client faults) b k k (start st) =
     (None, \<lparr>remote = ?s1(b @ ''/'' @ k := None), requests = requests (start st) @
         [CopyObjectInput b (b @ ''/'' @ k) k, DeleteObjectInput b k]\<rparr>)"
    using RenameObject_copied [OF cp] dl by simp
  show "fst (RenameObject (mem_client faults) b k k (start st)) = None"
    by (simp add: m)
  show "remote (snd (RenameObject (mem_client faults) b k k (start st))) (b @ ''/'' @ k) = None"
    by (simp add: m)
qed

theorem rename_same_key_witness:
  "client_CopyObject (mem_client no_faults) ''bkt'' (''bkt'' @ ''/'' @ ''a.txt'') ''a.txt''
     (remote (start one_object)) = (None, one_object)
   \<and> client_DeleteObject (mem_client no_faults) ''bkt'' ''a.txt'' one_object = (None, Map.empty)
   \<and> RenameObject (mem_client no_faults) ''bkt'' ''a.txt'' ''a.txt'' (start one_object) =
       (None, \<lparr>remote = Map.empty, requests =
          [CopyObjectInput ''bkt'' ''bkt/a.txt'' ''a.txt'', DeleteObjectInput ''bkt'' ''a.txt'']\<rparr>)
   \<and> one_object ''bkt/a.txt'' = Some ''hello''"
proof -
  have h1: "client_CopyObject (mem_client no_faults) ''bkt'' (''bkt'' @ ''/'' @ ''a.txt'') ''a.txt''
     (remote (start one_object)) = (None, one_object)"
    by (simp add: mem_client_def start_def one_object_def no_faults_def)
  have h2: "client_DeleteObject (mem_client no_faults) ''bkt'' ''a.txt'' one_object = (None, Map.empty)"
    by (simp add: mem_client_def one_object_def no_faults_def)
  from rename_same_key [OF h1, where ?s2.0 = Map.empty] h2
  have "RenameObject (mem_client no_faults) ''bkt'' ''a.txt'' ''a.txt'' (start one_object) =
       (None, \<lparr>remote = Map.empty, requests = requests (start one_object) @
          [CopyObjectInput ''bkt'' (''bkt'' @ ''/'' @ ''a.txt'') ''a.txt'', DeleteObjectInput ''bkt'' ''a.txt'']\<rparr>)"
    by blast
  then show ?thesis using h1 h2
    by (simp add: start_def one_object_def)
qed

section \<open>Properties of listing\<close>

lemma list_loop_pages:
  "pages P p css r \<Longrightarrow>
     list_loop P p acc =
       Some (case r of None \<Rightarrow> Inr (acc @ concat css)
             | Some e \<Rightarrow> Inl (''failed to list objects: '' @ e))"
proof (induction arbitrary: acc rule: pages.induct)
  case (exhausted P p)
  then show ?case by (subst list_loop.simps) simp
next
  case (failed P p e p')
  then show ?case by (subst list_loop.simps) simp
next
  case (fetched P p cs p' css r)
  show ?case
    by (subst list_loop.simps) (simp add: fetched.hyps fetched.IH split: option.splits)
qed

lemma pages_two_pages:
  "pages (sdk_paginator two_pages) (NewListObjectsV2Paginator (sdk_paginator two_pages) ''bkt'')
     [[obj_a], [obj_b]] None"
  apply (rule pages.fetched [where p' = "\<lparr>params_Bucket = ''bkt'', firstPage = False, nextToken = Some ''t1''\<rparr>"])
    apply (simp add: sdk_paginator_def)
   apply (simp add: sdk_paginator_def)
  apply (rule pages.fetched [where p' = "\<lparr>params_Bucket = ''bkt'', firstPage = False, nextToken = None\<rparr>"])
    apply (simp add: sdk_paginator_def)
   apply (simp add: sdk_paginator_def)
  apply (rule pages.exhausted)
  apply (simp add: sdk_paginator_def)
  done

lemma pages_second_fails:
  "pages (sdk_paginator second_fails) (NewListObjectsV2Paginator (sdk_paginator second_fails) ''bkt'')
     [[obj_a]] (Some ''timeout'')"
  apply (rule pages.fetched [where p' = "\<lparr>params_Bucket = ''bkt'', firstPage = False, nextToken = Some ''t1''\<rparr>"])
    apply (simp add: sdk_paginator_def)
   apply (simp add: sdk_paginator_def)
  apply (rule pages.failed [where p' = "\<lparr>params_Bucket = ''bkt'', firstPage = False, nextToken = Some ''t1''\<rparr>"])
   apply (simp add: sdk_paginator_def)
  apply (simp add: sdk_paginator_def)
  done

lemma pages_empty_bucket:
  "pages (sdk_paginator empty_bucket) (NewListObjectsV2Paginator (sdk_paginator empty_bucket) ''bkt'')
     [[]] None"
  apply (rule pages.fetched [where p' = "\<lparr>params_Bucket = ''bkt'', firstPage = False, nextToken = None\<rparr>"])
    apply (simp add: sdk_paginator_def)
   apply (simp add: sdk_paginator_def empty_bucket_def)
  apply (rule pages.exhausted)
  apply (simp add: sdk_paginator_def)
  done

text \<open>
  Claim C6. When the paginator serves finitely many pages, \<^verbatim>\<open>ListObjects\<close> returns, and
  returns the concatenation of the contents of all pages in page order; when a page fetch
  fails after some pages were fetched it returns the wrapped error and none of the objects of
  the earlier pages; when every page is empty (an empty bucket) it returns the empty sequence
  and no error.
\<close>

theorem list_drains_all_pages:
  assumes "pages P (NewListObjectsV2Paginator P bucket) css r"
  shows "(r = None \<longrightarrow> ListObjects P bucket = Some (Inr (concat css)))
    \<and> (r = Some e \<longrightarrow> ListObjects P bucket = Some (Inl (''failed to list objects: '' @ e)))
    \<and> (r = None \<and> (\<forall>cs \<in> set css. cs = []) \<longrightarrow> ListObjects P bucket = Some (Inr []))"
  using list_loop_pages [OF assms, of "[]"]
  by (auto simp: ListObjects_def)

theorem list_drains_all_pages_witness:
  "pages (sdk_paginator two_pages) (NewListObjectsV2Paginator (sdk_paginator two_pages) ''bkt'')
     [[obj_a], [obj_b]] None
   \<and> ListObjects (sdk_paginator two_pages) ''bkt'' = Some (Inr [obj_a, obj_b])
   \<and> pages (sdk_paginator second_fails) (NewListObjectsV2Paginator (sdk_paginator second_fails) ''bkt'')
     [[obj_a]] (Some ''timeout'')
   \<and> ListObjects (sdk_paginator second_fails) ''bkt'' = Some (Inl ''failed to list objects: timeout'')
   \<and> pages (sdk_paginator empty_bucket) (NewListObjectsV2Paginator (sdk_paginator empty_bucket) ''bkt'')
     [[]] None
   \<and> ListObjects (sdk_paginator empty_bucket) ''bkt'' = Some (Inr [])"
  using list_drains_all_pages [OF pages_two_pages]
    list_drains_all_pages [OF pages_second_fails, of "''timeout''"]
    list_drains_all_pages [OF pages_empty_bucket]
    pages_two_pages pages_second_fails pages_empty_bucket
  by simp

section \<open>Properties of presigning\<close>

lemma Hour_eq: "Hour = 3600000000000"
  by (simp add: Hour_def Minute_def Second_def Millisecond_def Microsecond_def Nanosecond_def)

text \<open>
  Claim C9. \<^verbatim>\<open>GeneratePresignedURL\<close> is \<^verbatim>\<open>GeneratePresignedURLWithExpiry\<close> at the
  duration \<^verbatim>\<open>24 * time.Hour\<close>, which is 24 hours in nanoseconds (the product does not wrap
  around), for every presign client, bucket and key. The expiry flag of the command has the
  default 24, and a \<^verbatim>\<open>presign\<close> command without an expiry flag, with a bucket and a key,
  ends as the call of \<^verbatim>\<open>GeneratePresignedURL\<close> does.
\<close>

theorem presign_default_expiry:
  "GeneratePresignedURL presign bucket key
     = GeneratePresignedURLWithExpiry presign bucket key (24 * Hour)
   \<and> sint (24 * Hour) = 24 * 60 * 60 * 1000000000
   \<and> flag_value (24 :: 64 word) None * Hour = 24 * Hour
   \<and> (arg_expiry args = None \<and> flag_value (DefaultBucket cfg) (arg_bucket args) = bucket
        \<and> flag_value [] (arg_key args) = key \<and> bucket \<noteq> [] \<and> key \<noteq> [] \<longrightarrow>
        handlePresignCommand presign cfg args =
          (case GeneratePresignedURL presign bucket key of
             Inl err \<Rightarrow>
               ExitWithError (''Failed to generate presigned URL for object '' @ quoted key
                              @ '': '' @ err)
           | Inr url \<Rightarrow> Printed (''Presigned URL: '' @ url)))"
  by (auto simp: GeneratePresignedURL_def handlePresignCommand_def flag_value_def Hour_eq)

theorem presign_default_expiry_witness:
  "arg_expiry \<lparr>arg_bucket = None, arg_key = Some ''a.txt'', arg_expiry = None\<rparr> = None
   \<and> flag_value (DefaultBucket file_config)
        (arg_bucket \<lparr>arg_bucket = None, arg_key = Some ''a.txt'', arg_expiry = None\<rparr>) = ''fbkt''
   \<and> flag_value [] (arg_key \<lparr>arg_bucket = None, arg_key = Some ''a.txt'', arg_expiry = None\<rparr>) = ''a.txt''
   \<and> GeneratePresignedURL echo_presigner ''fbkt'' ''a.txt''
        = Inr ''https://r2.example/fbkt/a.txt?expires=86400''
   \<and> handlePresignCommand echo_presigner file_config
        \<lparr>arg_bucket = None, arg_key = Some ''a.txt'', arg_expiry = None\<rparr>
        = Printed ''Presigned URL: https://r2.example/fbkt/a.txt?expires=86400''"
proof -
  let ?args = "\<lparr>arg_bucket = None, arg_key = Some ''a.txt'', arg_expiry = None\<rparr>"
  have h: "arg_expiry ?args = None \<and> flag_value (DefaultBucket file_config) (arg_bucket ?args) = ''fbkt''
     \<and> flag_value [] (arg_key ?args) = ''a.txt'' \<and> ''fbkt'' \<noteq> [] \<and> ''a.txt'' \<noteq> []"
    by (simp add: flag_value_def file_config_def)
  have g: "GeneratePresignedURL echo_presigner ''fbkt'' ''a.txt''
        = Inr ''https://r2.example/fbkt/a.txt?expires=86400''"
    by (simp add: GeneratePresignedURL_def GeneratePresignedURLWithExpiry_def echo_presigner_def Hour_eq)
  from presign_default_expiry [where args = ?args and cfg = file_config and bucket = "''fbkt''"
      and key = "''a.txt''" and presign = echo_presigner] h
  have "handlePresignCommand echo_presigner file_config ?args =
          (case GeneratePresignedURL echo_presigner ''fbkt'' ''a.txt'' of
             Inl err \<Rightarrow>
               ExitWithError (''Failed to generate presigned URL for object '' @ quoted ''a.txt''
                              @ '': '' @ err)
           | Inr url \<Rightarrow> Printed (''Presigned URL: '' @ url))"
    by blast
  then show ?thesis using h g by simp
qed

section \<open>Properties of the download destination\<close>

lemma ReplaceAll_slash: "ReplaceAll s ''/'' ''_'' = underscored s"
proof (induction s)
  case Nil
  show ?case by (subst ReplaceAll.simps) (simp add: underscored_def)
next
  case (Cons c cs)
  then show ?case
    by (subst ReplaceAll.simps) (simp add: underscored_def)
qed

lemma split_slash_no_slash: "CHR ''/'' \<notin> set s \<Longrightarrow> split_slash s = [s]"
  by (induction s) auto

lemma underscored_no_slash: "CHR ''/'' \<notin> set (underscored key)"
  by (auto simp: underscored_def)

lemma Join_dot:
  assumes "name \<noteq> []" and "CHR ''/'' \<notin> set name"
  shows "Join [''.'', name] = name"
proof -
  obtain c cs where n: "name = c # cs"
    using assms(1) by (cases name) auto
  have s: "split_slash (CHR ''.'' # CHR ''/'' # name) = [''.'', name]"
    using split_slash_no_slash [OF assms(2)] by simp
  have c: "clean_elems False [] [''.'', name] = (if name = ''.'' then [] else [name])"
    using assms(1) by simp
  have "Clean (CHR ''.'' # CHR ''/'' # name) = name"
    unfolding Clean_def Let_def s c using assms(1) by simp
  then show ?thesis
    by (simp add: Join_def)
qed

text \<open>
  Claim C8. Without \<^verbatim>\<open>-o\<close> the destination is \<^verbatim>\<open>filepath.Join(".", name)\<close> for \<open>name\<close>
  the key with every \<^verbatim>\<open>/\<close> replaced by \<^verbatim>\<open>_\<close>; for the non-empty keys the command
  accepts this is \<open>name\<close> itself, a file name of the current directory. When \<^verbatim>\<open>-o\<close> names
  an existing directory the destination is that directory joined with the base name of the
  key. Otherwise the destination is the given path, unchanged.
\<close>

theorem download_destination:
  "finalOutputPath stat key [] = Join [''.'', underscored key]
   \<and> (key \<noteq> [] \<longrightarrow> finalOutputPath stat key [] = underscored key)
   \<and> (out \<noteq> [] \<and> stat out = Some True \<longrightarrow> finalOutputPath stat key out = Join [out, Base key])
   \<and> (out \<noteq> [] \<and> stat out \<noteq> Some True \<longrightarrow> finalOutputPath stat key out = out)
   \<and> (flag_value (DefaultBucket cfg) (dl_bucket args) \<noteq> [] \<and> dl_key args = Some key \<and> key \<noteq> []
        \<longrightarrow> handleDownloadCommand stat cfg args =
              Inr (flag_value (DefaultBucket cfg) (dl_bucket args), key,
                   finalOutputPath stat key (flag_value [] (dl_output args))))"
proof (intro conjI impI)
  show "finalOutputPath stat key [] = Join [''.'', underscored key]"
    by (simp add: finalOutputPath_def ReplaceAll_slash)
  show "finalOutputPath stat key [] = underscored key" if "key \<noteq> []"
  proof -
    have "underscored key \<noteq> []"
      using that by (simp add: underscored_def)
    then show ?thesis
      using Join_dot [OF _ underscored_no_slash, of key]
      by (simp add: finalOutputPath_def ReplaceAll_slash)
  qed
  show "finalOutputPath stat key out = Join [out, Base key]" if "out \<noteq> [] \<and> stat out = Some True"
    using that by (simp add: finalOutputPath_def)
  show "finalOutputPath stat key out = out" if "out \<noteq> [] \<and> stat out \<noteq> Some True"
    using that by (auto simp: finalOutputPath_def split: option.splits bool.splits)
  show "handleDownloadCommand stat cfg args =
              Inr (flag_value (DefaultBucket cfg) (dl_bucket args), key,
                   finalOutputPath stat key (flag_value [] (dl_output args)))"
    if "flag_value (DefaultBucket cfg) (dl_bucket args) \<noteq> [] \<and> dl_key args = Some key \<and> key \<noteq> []"
    using that by (simp add: handleDownloadCommand_def flag_value_def)
qed

theorem download_destination_witness:
  "finalOutputPath some_fs ''docs/a.txt'' [] = ''docs_a.txt''
   \<and> finalOutputPath some_fs ''docs/a.txt'' ''/tmp/out'' = ''/tmp/out/a.txt''
   \<and> finalOutputPath some_fs ''docs/a.txt'' ''/tmp/f'' = ''/tmp/f''
   \<and> finalOutputPath some_fs ''docs/a.txt'' ''/tmp/new'' = ''/tmp/new''
   \<and> handleDownloadCommand some_fs file_config
        \<lparr>dl_bucket = None, dl_key = Some ''docs/a.txt'', dl_output = None\<rparr>
       = Inr (''fbkt'', ''docs/a.txt'', ''docs_a.txt'')"
proof -
  have k: "''docs/a.txt'' \<noteq> []" by simp
  have u: "underscored ''docs/a.txt'' = ''docs_a.txt''"
    by (simp add: underscored_def)
  have d: "''/tmp/out'' \<noteq> [] \<and> some_fs ''/tmp/out'' = Some True"
    by (simp add: some_fs_def)
  have f: "''/tmp/f'' \<noteq> [] \<and> some_fs ''/tmp/f'' \<noteq> Some True"
    by (simp add: some_fs_def)
  have n: "''/tmp/new'' \<noteq> [] \<and> some_fs ''/tmp/new'' \<noteq> Some True"
    by (simp add: some_fs_def)
  have j: "Join [''/tmp/out'', Base ''docs/a.txt''] = ''/tmp/out/a.txt''"
    by (simp add: Join_def Base_def Clean_def)
  let ?args = "\<lparr>dl_bucket = None, dl_key = Some ''docs/a.txt'', dl_output = None\<rparr>"
  have h: "flag_value (DefaultBucket file_config) (dl_bucket ?args) \<noteq> []
      \<and> dl_key ?args = Some ''docs/a.txt'' \<and> ''docs/a.txt'' \<noteq> []"
    by (simp add: flag_value_def file_config_def)
  note dd = download_destination [where stat = some_fs and key = "''docs/a.txt''"]
  have "finalOutputPath some_fs ''docs/a.txt'' [] = underscored ''docs/a.txt''"
    using dd [THEN conjunct2, THEN conjunct1] k by (rule mp)
  with u have 1: "finalOutputPath some_fs ''docs/a.txt'' [] = ''docs_a.txt''"
    by simp
  have "finalOutputPath some_fs ''docs/a.txt'' ''/tmp/out'' = Join [''/tmp/out'', Base ''docs/a.txt'']"
    using dd [THEN conjunct2, THEN conjunct2, THEN conjunct1] d by (rule mp)
  with j have 2: "finalOutputPath some_fs ''docs/a.txt'' ''/tmp/out'' = ''/tmp/out/a.txt''"
    by simp
  have 3: "finalOutputPath some_fs ''docs/a.txt'' ''/tmp/f'' = ''/tmp/f''"
    using dd [THEN conjunct2, THEN conjunct2, THEN conjunct2, THEN conjunct1] f by (rule mp)
  have 4: "finalOutputPath some_fs ''docs/a.txt'' ''/tmp/new'' = ''/tmp/new''"
    using dd [THEN conjunct2, THEN conjunct2, THEN conjunct2, THEN conjunct1] n by (rule mp)
  have "handleDownloadCommand some_fs file_config ?args =
          Inr (flag_value (DefaultBucket file_config) (dl_bucket ?args), ''docs/a.txt'',
               finalOutputPath some_fs ''docs/a.txt'' (flag_value [] (dl_output ?args)))"
    using dd [THEN conjunct2, THEN conjunct2, THEN conjunct2, THEN conjunct2] h by (rule mp)
  then have 5: "handleDownloadCommand some_fs file_config ?args
       = Inr (''fbkt'', ''docs/a.txt'', ''docs_a.txt'')"
    using 1 by (simp add: flag_value_def file_config_def)
  show ?thesis
    by (intro conjI) (rule 1 2 3 4 5)+
qed

section \<open>Properties of the progress wrappers\<close>










lemma show_nat_digit: "n < 10 \<Longrightarrow> show_nat n = [''0123456789'' ! n]"
  by (subst show_nat.simps) simp







text \<open>
  Claim C2 fails on the code. With no content length the total is 0, the warning says that
  the percentage will not be shown, and every write through the progress writer still prints
  the progress line with a percentage: the quotient of the transferred count by the zero
  total, an infinity, written \<^verbatim>\<open>5 / 0 (+Inf%)\<close>.
\<close>

theorem download_without_length_shows_percentage:
  "DownloadObject rnd no_length_store create_ok write_all ''bkt'' ''a.txt'' ''a.txt'' =
     (None,
      [Line ''Warning: ContentLength not available, download progress percentage will not be shown.'',
       Progress 5 0 PosInf,
       Line []])
   \<and> float64_div rnd (float64_of_int64 rnd 5) (float64_of_int64 rnd 0) = PosInf
   \<and> progressWriter_Write rnd \<lparr>pw_total = 0, pw_transferred = 0\<rparr> (5, None)
       = ((5, None), \<lparr>pw_total = 0, pw_transferred = 5\<rparr>, [Progress 5 0 PosInf])
   \<and> render (Progress 5 0 PosInf) = CHR 0x0D # ''5 / 0 (+Inf%)''"
  by (simp add: DownloadObject_def no_length_store_def create_ok_def write_all_def
      progressWriter_Write_def float64_of_int64_def show_int_def show_nat_digit)

end
